theory Spec2Isabelle
  imports Main
begin

section \<open>d7.py: a batch driver around the 7-Zip command line tool\<close>

text \<open>
  The script \<^verbatim>\<open>d7.py\<close> expands its input paths to a list of files, allocates one
  output directory per file, runs the external tool once per file and counts the
  failures. Its functions are embedded here as HOL functions. Everything the script
  asks of the operating system (path arithmetic, the file system, the child process) is
  written out as an explicit model: POSIX path functions on strings, a finite table of
  file-system nodes, and the external tool as a parameter.
\<close>

subsection \<open>Strings and numbers\<close>

text \<open>Python's \<^verbatim>\<open>str(n)\<close> for a non-negative integer, and for any integer.\<close>

definition digit_char :: "nat \<Rightarrow> char" where
  "digit_char d = ''0123456789'' ! d"

fun str_nat :: "nat \<Rightarrow> string" where
  "str_nat n = (if n < 10 then [digit_char n] else str_nat (n div 10) @ [digit_char (n mod 10)])"

declare str_nat.simps [simp del]

definition str_int :: "int \<Rightarrow> string" where
  "str_int i = (if i < 0 then CHR ''-'' # str_nat (nat (- i)) else str_nat (nat i))"

text \<open>\<^verbatim>\<open>str(x)\<close> of a value that is either \<^verbatim>\<open>None\<close> or a string.\<close>

fun str_opt :: "string option \<Rightarrow> string" where
  "str_opt None = ''None''"
| "str_opt (Some s) = s"

fun str_int_opt :: "int option \<Rightarrow> string" where
  "str_int_opt None = ''None''"
| "str_int_opt (Some i) = str_int i"

text \<open>Truthiness of an optional string: \<^verbatim>\<open>None\<close> and the empty string are false.\<close>

fun truthy :: "string option \<Rightarrow> bool" where
  "truthy None = False"
| "truthy (Some s) = (s \<noteq> [])"

subsection \<open>Path arithmetic (\<^verbatim>\<open>os.path\<close>, POSIX flavour)\<close>

text \<open>
  \<open>rfind1 c p\<close> is \<^verbatim>\<open>p.rfind(c) + 1\<close>: one more than the index of the last
  occurrence of \<open>c\<close>, and \<open>0\<close> when \<open>c\<close> does not occur.
\<close>

definition rfind1 :: "char \<Rightarrow> string \<Rightarrow> nat" where
  "rfind1 c p = length (dropWhile (\<lambda>x. x \<noteq> c) (rev p))"

definition rstrip_sep :: "string \<Rightarrow> string" where
  "rstrip_sep s = rev (dropWhile (\<lambda>x. x = CHR ''/'') (rev s))"

definition basename :: "string \<Rightarrow> string" where
  "basename p = drop (rfind1 (CHR ''/'') p) p"

definition dirname :: "string \<Rightarrow> string" where
  "dirname p =
     (let head = take (rfind1 (CHR ''/'') p) p
      in if head \<noteq> [] \<and> head \<noteq> replicate (length head) (CHR ''/'')
         then rstrip_sep head else head)"

definition join :: "string \<Rightarrow> string \<Rightarrow> string" where
  "join a b =
     (if take 1 b = ''/'' then b
      else if a = [] \<or> last a = CHR ''/'' then a @ b
      else a @ ''/'' @ b)"

text \<open>
  \<^verbatim>\<open>os.path.splitext\<close>: the extension starts at the last dot of the last path
  component, unless that component has only dots before it (a leading dot does not start
  an extension).
\<close>

definition splitext :: "string \<Rightarrow> string \<times> string" where
  "splitext p =
     (let sep1 = rfind1 (CHR ''/'') p;
          dot1 = rfind1 (CHR ''.'') p
      in if sep1 < dot1
            \<and> list_ex (\<lambda>x. x \<noteq> CHR ''.'') (take (dot1 - 1 - sep1) (drop sep1 p))
         then (take (dot1 - 1) p, drop (dot1 - 1) p)
         else (p, []))"

subsection \<open>Severity and the table of return values\<close>

datatype severity = DEBUG | INFO | WARNING | ERROR

definition getSeverity :: "int \<Rightarrow> severity" where
  "getSeverity level =
     (if level = 0 then INFO
      else if level = 1 \<or> level = 255 then WARNING
      else ERROR)"

definition return_code_table :: "(int \<times> string) list" where
  "return_code_table =
     [(0, ''No error''),
      (1, ''Warning''),
      (2, ''Fatal error''),
      (7, ''Command line error''),
      (8, ''Not enough memory for operation''),
      (255, ''User stopped the process'')]"

text \<open>
  The batch loop counts an archive as a failure when \<^verbatim>\<open>rtn.returncode != 0\<close>.
\<close>

definition is_failure :: "int \<Rightarrow> bool" where
  "is_failure returncode = (returncode \<noteq> 0)"

subsection \<open>Errors\<close>

datatype os_error = FileExistsError | NotADirectoryError | FileNotFoundError | PermissionError

datatype error =
    SystemExit int
  | KeyError int
  | OSError os_error
  | RecursionError

text \<open>
  The subscript \<^verbatim>\<open>return_code_table[code]\<close> of \<^verbatim>\<open>main\<close>: a key that is not in the
  dictionary raises \<^verbatim>\<open>KeyError\<close>.
\<close>

definition table_lookup :: "int \<Rightarrow> error + string" where
  "table_lookup code =
     (case map_of return_code_table code of
        None \<Rightarrow> Inl (KeyError code)
      | Some d \<Rightarrow> Inr d)"

subsection \<open>Building the command line\<close>

text \<open>
  The first half of \<^verbatim>\<open>seven_zip\<close>: the argument list handed to
  \<^verbatim>\<open>subprocess.run\<close>, built by the same sequence of appends.
\<close>

definition seven_zip_cmd ::
  "string \<Rightarrow> string \<Rightarrow> string option \<Rightarrow> string option \<Rightarrow> int option \<Rightarrow> string list" where
  "seven_zip_cmd exe_path file_path out_dir password code_page =
     (let ext = snd (splitext (basename file_path));
          cmd = [exe_path];
          cmd = cmd @ [''x''];
          cmd = cmd @ [''-y''];
          cmd = cmd @ [''-aoa''];
          cmd = cmd @ [''-o'' @ str_opt out_dir];
          cmd = (if ext \<in> set [''.zip'', ''.7z'', ''.rar'', ''''] \<and> password \<noteq> None
                 then cmd @ [''-p'' @ str_opt password] else cmd);
          cmd = (if ext \<in> set [''.zip'', ''.tar''] \<and> code_page \<noteq> None
                 then cmd @ [''-mcp='' @ str_int_opt code_page] else cmd);
          cmd = cmd @ [file_path]
      in cmd)"

text \<open>
  Vocabulary for statements about a command line: its optional switches are the
  arguments after the five fixed leading ones and before the final archive path.
\<close>

definition cmd_options :: "string list \<Rightarrow> string list" where
  "cmd_options cmd = butlast (drop 5 cmd)"

definition is_password_flag :: "string \<Rightarrow> bool" where
  "is_password_flag a = (take 2 a = ''-p'')"

definition is_codepage_flag :: "string \<Rightarrow> bool" where
  "is_codepage_flag a = (take 5 a = ''-mcp='')"

definition has_password_flag :: "string list \<Rightarrow> bool" where
  "has_password_flag cmd = list_ex is_password_flag (cmd_options cmd)"

definition has_codepage_flag :: "string list \<Rightarrow> bool" where
  "has_codepage_flag cmd = list_ex is_codepage_flag (cmd_options cmd)"

text \<open>
  The reading of the specification under which the extension is lowercased before it is
  compared: \<open>ascii_lower\<close> is \<^verbatim>\<open>str.lower\<close> on ASCII letters.
\<close>

definition ascii_lower :: "char \<Rightarrow> char" where
  "ascii_lower c =
     (case map_of (zip ''ABCDEFGHIJKLMNOPQRSTUVWXYZ'' ''abcdefghijklmnopqrstuvwxyz'') c of
        None \<Rightarrow> c
      | Some l \<Rightarrow> l)"

definition spec_password_extension :: "string \<Rightarrow> bool" where
  "spec_password_extension ext =
     (map ascii_lower ext \<in> set [''.zip'', ''.7z'', ''.rar'', ''''])"

subsection \<open>The file system\<close>

text \<open>
  The file system is a finite table from absolute, normalised path strings to the kind of
  node found there; the first binding of a path counts. \<open>Other\<close> stands for anything
  that exists and is neither a regular file nor a directory (a FIFO, a socket, a
  device). The order of the table is the order in which \<^verbatim>\<open>os.scandir\<close> enumerates
  entries. \<open>cwd\<close> is the working directory of the process.
\<close>

datatype node = File | Dir | Other

record os_state =
  cwd :: string
  nodes :: "(string \<times> node) list"

definition lookup :: "os_state \<Rightarrow> string \<Rightarrow> node option" where
  "lookup st p = map_of (nodes st) p"

definition isfile :: "os_state \<Rightarrow> string \<Rightarrow> bool" where
  "isfile st p = (lookup st p = Some File)"

definition isdir :: "os_state \<Rightarrow> string \<Rightarrow> bool" where
  "isdir st p = (lookup st p = Some Dir)"

definition path_exists :: "os_state \<Rightarrow> string \<Rightarrow> bool" where
  "path_exists st p = (lookup st p \<noteq> None)"

text \<open>
  \<^verbatim>\<open>posixpath.normpath\<close> and \<^verbatim>\<open>os.path.abspath\<close>: split at the separator, drop empty
  and \<^verbatim>\<open>.\<close> components, let \<^verbatim>\<open>..\<close> cancel the component before it, keep one leading
  slash (or exactly two), and join again.
\<close>

fun split_sep :: "string \<Rightarrow> string list" where
  "split_sep [] = [[]]"
| "split_sep (c # cs) =
     (if c = CHR ''/'' then [] # split_sep cs
      else (case split_sep cs of [] \<Rightarrow> [[c]] | w # ws \<Rightarrow> (c # w) # ws))"

fun join_sep :: "string list \<Rightarrow> string" where
  "join_sep [] = []"
| "join_sep [c] = c"
| "join_sep (c # cs) = c @ ''/'' @ join_sep cs"

definition norm_step :: "nat \<Rightarrow> string list \<Rightarrow> string \<Rightarrow> string list" where
  "norm_step initial_slashes new_comps c =
     (if c = [] \<or> c = ''.'' then new_comps
      else if c \<noteq> ''..'' \<or> (initial_slashes = 0 \<and> new_comps = [])
              \<or> (new_comps \<noteq> [] \<and> last new_comps = ''..'')
           then new_comps @ [c]
      else if new_comps \<noteq> [] then butlast new_comps
      else new_comps)"

definition normpath :: "string \<Rightarrow> string" where
  "normpath p =
     (if p = [] then ''.''
      else
        let initial_slashes =
              (if take 1 p = ''/''
               then (if take 2 p = ''//'' \<and> take 3 p \<noteq> ''///'' then 2 else 1)
               else 0);
            comps = foldl (norm_step initial_slashes) [] (split_sep p);
            path = replicate initial_slashes (CHR ''/'') @ join_sep comps
        in if path = [] then ''.'' else path)"

definition abspath :: "os_state \<Rightarrow> string \<Rightarrow> string" where
  "abspath st p = normpath (if take 1 p = ''/'' then p else join (cwd st) p)"

text \<open>
  The proper ancestors of a path, outermost first, by repeated \<open>dirname\<close>. A
  \<open>dirname\<close> is a prefix of its argument, so the iteration ends.
\<close>

lemma rstrip_sep_take: "rstrip_sep s = take (length (rstrip_sep s)) s"
proof -
  have "rev s = takeWhile (\<lambda>x. x = CHR ''/'') (rev s) @ dropWhile (\<lambda>x. x = CHR ''/'') (rev s)"
    by simp
  then have "s = rstrip_sep s @ rev (takeWhile (\<lambda>x. x = CHR ''/'') (rev s))"
    unfolding rstrip_sep_def by (metis rev_append rev_rev_ident)
  then show ?thesis by (metis append_eq_conv_conj)
qed

lemma dirname_take: "dirname p = take (length (dirname p)) p"
proof -
  define h where "h = take (rfind1 (CHR ''/'') p) p"
  have hp: "take (length h) p = h"
    by (simp add: h_def min_def)
  have "rstrip_sep h = take (length (rstrip_sep h)) h" by (rule rstrip_sep_take)
  moreover have "length (rstrip_sep h) \<le> length h"
    by (simp add: rstrip_sep_def length_dropWhile_le order_trans [OF length_dropWhile_le])
  ultimately have rp: "rstrip_sep h = take (length (rstrip_sep h)) p"
    by (metis hp min.absorb1 take_take)
  have "dirname p = h \<or> dirname p = rstrip_sep h"
    by (simp add: dirname_def Let_def h_def)
  then show ?thesis using hp rp by auto
qed

lemma dirname_shorter: "dirname p \<noteq> p \<Longrightarrow> length (dirname p) < length p"
  by (metis dirname_take le_neq_implies_less length_take min.cobounded2 take_all order_refl nat_le_linear)

function ancestors :: "string \<Rightarrow> string list" where
  "ancestors p = (let h = dirname p in if h = [] \<or> h = p then [] else ancestors h @ [h])"
  by pat_completeness auto
termination
  by (relation "measure length") (auto simp: dirname_shorter)

declare ancestors.simps [simp del]

text \<open>
  \<^verbatim>\<open>os.makedirs(name)\<close> with \<^verbatim>\<open>exist_ok=False\<close>, by its documented behaviour on
  normalised paths: \<^verbatim>\<open>FileExistsError\<close> when the target exists; an error when an ancestor
  exists and is not a directory; otherwise the missing ancestors and the target become
  directories. Refusals for other reasons (permissions, read-only media) are outside
  this model.
\<close>

definition makedirs :: "os_state \<Rightarrow> string \<Rightarrow> error + os_state" where
  "makedirs st name =
     (if path_exists st name then Inl (OSError FileExistsError)
      else if list_ex (\<lambda>a. path_exists st a \<and> \<not> isdir st a) (ancestors name)
           then Inl (OSError NotADirectoryError)
      else Inr (st\<lparr>nodes := nodes st
                  @ map (\<lambda>a. (a, Dir)) (filter (\<lambda>a. \<not> path_exists st a) (ancestors name))
                  @ [(name, Dir)]\<rparr>))"

subsection \<open>Allocating a directory: \<^verbatim>\<open>create_dir\<close>\<close>

text \<open>The collision suffix \<^verbatim>\<open>f"({i})"\<close>.\<close>

definition suffix :: "nat \<Rightarrow> string" where
  "suffix i = ''('' @ str_nat i @ '')''"

text \<open>
  \<open>str_nat\<close> is injective, because \<open>nat_of_str\<close> reads the digits back. So different
  counters give different candidate paths, a finite table holds only finitely many of
  them, and the probing loop of \<^verbatim>\<open>create_dir\<close> terminates.
\<close>

definition digit_val :: "char \<Rightarrow> nat" where
  "digit_val c = length (takeWhile (\<lambda>x. x \<noteq> c) ''0123456789'')"

definition nat_of_str :: "string \<Rightarrow> nat" where
  "nat_of_str s = foldl (\<lambda>a c. 10 * a + digit_val c) 0 s"

lemma digit_val_digit_char: "d < 10 \<Longrightarrow> digit_val (digit_char d) = d"
proof -
  assume "d < 10"
  then have "d \<in> {0,1,2,3,4,5,6,7,8,9}" by auto
  then show ?thesis
    by (auto simp: digit_val_def digit_char_def)
qed

lemma nat_of_str_str_nat: "nat_of_str (str_nat n) = n"
proof (induction n rule: str_nat.induct)
  case (1 n)
  show ?case
  proof (cases "n < 10")
    case True
    then show ?thesis
      by (subst str_nat.simps) (simp add: nat_of_str_def digit_val_digit_char)
  next
    case False
    with 1 have "nat_of_str (str_nat (n div 10)) = n div 10" by simp
    with False show ?thesis
      by (subst str_nat.simps) (simp add: nat_of_str_def digit_val_digit_char)
  qed
qed

lemma suffix_inj: "p @ suffix i = p @ suffix j \<Longrightarrow> i = j"
  by (metis append_same_eq same_append_eq suffix_def nat_of_str_str_nat append.assoc)

lemma finite_probe_candidates: "finite {j. isfile st (p @ suffix j)}"
proof -
  have "inj (\<lambda>j. p @ suffix j)"
    by (rule injI) (rule suffix_inj)
  then have "finite ((\<lambda>j. p @ suffix j) -` fst ` set (nodes st))"
    by (intro finite_vimageI) auto
  moreover have "{j. isfile st (p @ suffix j)} \<subseteq> (\<lambda>j. p @ suffix j) -` fst ` set (nodes st)"
    by (force simp: isfile_def lookup_def dest!: map_of_SomeD)
  ultimately show ?thesis by (rule rev_finite_subset)
qed

text \<open>
  The loop \<^verbatim>\<open>for i in itertools.count(1)\<close> of \<^verbatim>\<open>create_dir\<close>, entered with counter
  \<open>i\<close>: it leaves with the first candidate that is not a regular file.
\<close>

function probe :: "os_state \<Rightarrow> string \<Rightarrow> nat \<Rightarrow> string" where
  "probe st abs_dir_path i =
     (if \<not> isfile st (abs_dir_path @ suffix i) then abs_dir_path @ suffix i
      else probe st abs_dir_path (Suc i))"
  by pat_completeness auto
termination
proof (relation "measure (\<lambda>(st, p, i). card {j. i \<le> j \<and> isfile st (p @ suffix j)})", simp)
  fix st :: os_state and p :: string and i :: nat
  assume "\<not> \<not> isfile st (p @ suffix i)"
  then have i: "isfile st (p @ suffix i)" by simp
  have fin: "finite {j. i \<le> j \<and> isfile st (p @ suffix j)}"
    by (rule rev_finite_subset [OF finite_probe_candidates]) auto
  have "i \<in> {j. i \<le> j \<and> isfile st (p @ suffix j)}"
    and "i \<notin> {j. Suc i \<le> j \<and> isfile st (p @ suffix j)}"
    using i by auto
  moreover have "{j. Suc i \<le> j \<and> isfile st (p @ suffix j)} \<subseteq> {j. i \<le> j \<and> isfile st (p @ suffix j)}"
    by auto
  ultimately have "{j. Suc i \<le> j \<and> isfile st (p @ suffix j)} \<subset> {j. i \<le> j \<and> isfile st (p @ suffix j)}"
    by blast
  then have "card {j. Suc i \<le> j \<and> isfile st (p @ suffix j)} < card {j. i \<le> j \<and> isfile st (p @ suffix j)}"
    using fin by (rule psubset_card_mono [rotated])
  then show "((st, p, Suc i), (st, p, i)) \<in> measure (\<lambda>(st, p, i). card {j. i \<le> j \<and> isfile st (p @ suffix j)})"
    by simp
qed

declare probe.simps [simp del]

text \<open>
  \<^verbatim>\<open>create_dir\<close> returns the allocated path (\<^verbatim>\<open>None\<close> when the argument is \<^verbatim>\<open>None\<close>
  or empty) together with the file system it leaves behind, or the error raised by
  \<^verbatim>\<open>os.makedirs\<close>. Its \<^verbatim>\<open>logger.debug\<close> call is left out: the logger's level is
  \<^verbatim>\<open>INFO\<close>, so debug records are never emitted.
\<close>

definition create_dir :: "os_state \<Rightarrow> string option \<Rightarrow> error + (string option \<times> os_state)" where
  "create_dir st dir_path =
     (if truthy dir_path then
        let abs_dir_path = abspath st (str_opt dir_path);
            abs_dir_path = (if isfile st abs_dir_path then probe st abs_dir_path 1
                            else abs_dir_path)
        in if \<not> isdir st abs_dir_path
           then (case makedirs st abs_dir_path of
                   Inl e \<Rightarrow> Inl e
                 | Inr st' \<Rightarrow> Inr (Some abs_dir_path, st'))
           else Inr (Some abs_dir_path, st)
      else Inr (None, st))"

subsection \<open>Expanding the input paths: \<^verbatim>\<open>get_file_list\<close>\<close>

text \<open>
  \<^verbatim>\<open>os.scandir(path)\<close>: the entries of the table whose parent directory is \<open>path\<close>,
  in table order. The path of an entry is \<^verbatim>\<open>os.path.join(path, name)\<close>.
\<close>

record dir_entry =
  entry_name :: string
  entry_path :: string
  entry_kind :: node

definition scandir :: "os_state \<Rightarrow> string \<Rightarrow> dir_entry list" where
  "scandir st path =
     map (\<lambda>(q, n). \<lparr>entry_name = basename q, entry_path = join path (basename q), entry_kind = n\<rparr>)
       (filter (\<lambda>(q, n). dirname q = path \<and> q \<noteq> path) (nodes st))"

definition startswith_dot :: "string \<Rightarrow> bool" where
  "startswith_dot s = (take 1 s = ''.'')"

text \<open>
  The body of the nested function \<^verbatim>\<open>search_sub_dir\<close>: the loop over the entries, which
  appends to \<open>files\<close>. \<open>depth\<close> bounds the nesting of the recursive calls, as Python's
  recursion limit does; it plays no role when \<open>recursive\<close> is false.
\<close>

fun scan_entries ::
  "nat \<Rightarrow> bool \<Rightarrow> os_state \<Rightarrow> dir_entry list \<Rightarrow> string list \<Rightarrow> error + string list" where
  "scan_entries depth recursive st [] files = Inr files"
| "scan_entries depth recursive st (entry # it) files =
     (if \<not> startswith_dot (entry_name entry) \<and> entry_kind entry = File
        then scan_entries depth recursive st it (files @ [entry_path entry])
      else if \<not> startswith_dot (entry_name entry) \<and> entry_kind entry = Dir
        then (if recursive
              then (if depth = 0 then Inl RecursionError
                    else (case scan_entries (depth - 1) recursive st
                                 (scandir st (entry_path entry)) files of
                            Inl e \<Rightarrow> Inl e
                          | Inr files' \<Rightarrow> scan_entries depth recursive st it files'))
              else scan_entries depth recursive st it files)
      else scan_entries depth recursive st it files)"

definition search_sub_dir ::
  "nat \<Rightarrow> bool \<Rightarrow> os_state \<Rightarrow> string \<Rightarrow> string list \<Rightarrow> error + string list" where
  "search_sub_dir depth recursive st path files =
     scan_entries depth recursive st (scandir st path) files"

text \<open>
  The loop over \<open>path_list\<close> of \<^verbatim>\<open>get_file_list\<close>; the result \<open>Inr None\<close> is
  \<^verbatim>\<open>files = None\<close> after \<^verbatim>\<open>break\<close>.
\<close>

fun path_loop ::
  "nat \<Rightarrow> bool \<Rightarrow> os_state \<Rightarrow> string list \<Rightarrow> string list \<Rightarrow> error + string list option" where
  "path_loop depth recursive st [] files = Inr (Some files)"
| "path_loop depth recursive st (path # path_list) files =
     (let absolute_path = abspath st path
      in if isfile st absolute_path
           then path_loop depth recursive st path_list (files @ [absolute_path])
         else if isdir st absolute_path
           then (case search_sub_dir depth recursive st absolute_path files of
                   Inl e \<Rightarrow> Inl e
                 | Inr files' \<Rightarrow> path_loop depth recursive st path_list files')
         else Inr None)"

text \<open>The default of \<^verbatim>\<open>sys.getrecursionlimit()\<close>.\<close>

definition recursion_limit :: nat where
  "recursion_limit = 1000"

text \<open>
  \<^verbatim>\<open>get_file_list\<close>. Its argument is a list (the \<^verbatim>\<open>--input\<close> option has action
  \<^verbatim>\<open>append\<close>), so the wrapping of a single string is left out. Both \<^verbatim>\<open>sys.exit(-2)\<close>
  become the error \<open>SystemExit (- 2)\<close>.
\<close>

definition get_file_list :: "os_state \<Rightarrow> string list \<Rightarrow> bool \<Rightarrow> error + string list" where
  "get_file_list st path_list recursive =
     (case path_loop recursion_limit recursive st path_list [] of
        Inl e \<Rightarrow> Inl e
      | Inr None \<Rightarrow> Inl (SystemExit (- 2))
      | Inr (Some files) \<Rightarrow>
          if length files \<le> 0 then Inl (SystemExit (- 2)) else Inr files)"

subsection \<open>Running the tool: \<^verbatim>\<open>seven_zip\<close>\<close>

text \<open>
  The external tool is a parameter. Given the command line and the file-system table it
  returns its exit code and the table it leaves behind, or an error when the child
  process cannot be started. \<^verbatim>\<open>subprocess.run\<close> reports a child killed by a signal with
  a negative code. The captured output streams are not modelled.
\<close>

record completed_process =
  proc_args :: "string list"
  returncode :: int

type_synonym tool = "string list \<Rightarrow> (string \<times> node) list \<Rightarrow> error + (int \<times> (string \<times> node) list)"

definition seven_zip ::
  "tool \<Rightarrow> os_state \<Rightarrow> string \<Rightarrow> string \<Rightarrow> string option \<Rightarrow> string option \<Rightarrow> int option
   \<Rightarrow> error + (completed_process \<times> os_state)" where
  "seven_zip run st exe_path file_path out_dir password code_page =
     (let cmd = seven_zip_cmd exe_path file_path out_dir password code_page
      in case run cmd (nodes st) of
           Inl e \<Rightarrow> Inl e
         | Inr (code, nodes') \<Rightarrow> Inr (\<lparr>proc_args = cmd, returncode = code\<rparr>, st\<lparr>nodes := nodes'\<rparr>))"

subsection \<open>The batch: \<^verbatim>\<open>check_argument\<close> and \<^verbatim>\<open>main\<close>\<close>

text \<open>
  The parsed command line (\<^verbatim>\<open>argparse.Namespace\<close>). \<^verbatim>\<open>check_argument\<close> is modelled
  from the point where parsing has succeeded. \<^verbatim>\<open>os.path.isfile(args.exe)\<close> is asked about
  the name as typed, which the operating system resolves against the working directory.
\<close>

record namespace =
  arg_codepage :: "int option"
  arg_input :: "string list"
  arg_output :: "string option"
  arg_password :: "string option"
  arg_exe :: string

definition main_executables :: "string list" where
  "main_executables = [''7z'', ''7za'', ''7zz'', ''7zzs'', ''7zr'']"

definition check_argument :: "os_state \<Rightarrow> namespace \<Rightarrow> error + namespace" where
  "check_argument st ns =
     (if \<not> isfile st (abspath st (arg_exe ns)) then Inl (SystemExit (- 2))
      else
        let name = fst (splitext (basename (arg_exe ns)))
        in if name \<notin> set main_executables then Inl (SystemExit (- 2))
           else Inr ns)"

text \<open>
  The statistics dictionary, and the log as a list of records: a level and the fields
  that the message is formatted from (\<open>START\<close> and \<open>END\<close> print the script's file
  name). Only records of level \<^verbatim>\<open>INFO\<close> and above are kept.
\<close>

record statistics =
  total :: int
  failure :: int

datatype log_event =
    START
  | IDX_TOTAL int int
  | IN_FILE string
  | OUT_DIR "string option"
  | CMDSTATUS int string
  | RESULT int int int
  | END

record run_state =
  stats :: statistics
  fs :: os_state
  logged :: "(severity \<times> log_event) list"

text \<open>
  Lines 106 to 110 of \<^verbatim>\<open>main\<close>: the directory for archive \<open>i\<close> and the call of
  \<^verbatim>\<open>seven_zip\<close> on it.
\<close>

definition extract_item ::
  "tool \<Rightarrow> string \<Rightarrow> string list \<Rightarrow> string option \<Rightarrow> namespace \<Rightarrow> nat \<Rightarrow> os_state
   \<Rightarrow> error + (string option \<times> completed_process \<times> os_state)" where
  "extract_item run exe_path files work_dir ns i st =
     (let name = fst (splitext (basename (files ! i)));
          base_dir_path = (if truthy work_dir then str_opt work_dir else dirname (files ! i))
      in case create_dir st (Some (join base_dir_path name)) of
           Inl e \<Rightarrow> Inl e
         | Inr (separate_dir, st1) \<Rightarrow>
             (case seven_zip run st1 exe_path (files ! i) separate_dir
                     (arg_password ns) (arg_codepage ns) of
                Inl e \<Rightarrow> Inl e
              | Inr (rtn, st2) \<Rightarrow> Inr (separate_dir, rtn, st2)))"

text \<open>
  The body of the \<^verbatim>\<open>for\<close> loop of \<^verbatim>\<open>main\<close>. The message of the last record is
  formatted, and so \<^verbatim>\<open>return_code_table[rtn.returncode]\<close> is evaluated, before
  \<^verbatim>\<open>logger.log\<close> is called.
\<close>

definition loop_body ::
  "tool \<Rightarrow> string \<Rightarrow> string list \<Rightarrow> string option \<Rightarrow> namespace \<Rightarrow> nat \<Rightarrow> run_state
   \<Rightarrow> error + run_state" where
  "loop_body run exe_path files work_dir ns i s =
     (let lg = logged s @ [(INFO, IDX_TOTAL (int i + 1) (total (stats s)))]
      in case extract_item run exe_path files work_dir ns i (fs s) of
           Inl e \<Rightarrow> Inl e
         | Inr (separate_dir, rtn, st2) \<Rightarrow>
             (let statistics = (if is_failure (returncode rtn)
                                then (stats s)\<lparr>failure := failure (stats s) + 1\<rparr>
                                else stats s);
                  lg = lg @ [(INFO, IN_FILE (files ! i)), (INFO, OUT_DIR separate_dir)]
              in case table_lookup (returncode rtn) of
                   Inl e \<Rightarrow> Inl e
                 | Inr description \<Rightarrow>
                     Inr \<lparr>stats = statistics, fs = st2,
                          logged = lg @ [(getSeverity (returncode rtn),
                                          CMDSTATUS (returncode rtn) description)]\<rparr>))"

text \<open>\<^verbatim>\<open>for i in range(...)\<close>: the body for each index in turn, until one raises.\<close>

fun for_range :: "(nat \<Rightarrow> 's \<Rightarrow> error + 's) \<Rightarrow> nat list \<Rightarrow> 's \<Rightarrow> error + 's" where
  "for_range body [] s = Inr s"
| "for_range body (i # rest) s =
     (case body i s of
        Inl e \<Rightarrow> Inl e
      | Inr s' \<Rightarrow> for_range body rest s')"

text \<open>
  \<^verbatim>\<open>main\<close>, from the parsed arguments on: the checks, the expansion of the inputs, the
  output root, the loop over the files and the summary. It returns 0 with the final
  state, or the exception that ended it.
\<close>

definition main :: "tool \<Rightarrow> os_state \<Rightarrow> namespace \<Rightarrow> error + (int \<times> run_state)" where
  "main run st ns =
     (case check_argument st ns of
        Inl e \<Rightarrow> Inl e
      | Inr args \<Rightarrow>
          let exe_path = abspath st (arg_exe args)
          in case get_file_list st (arg_input args) False of
               Inl e \<Rightarrow> Inl e
             | Inr files \<Rightarrow>
                 (case create_dir st (arg_output args) of
                    Inl e \<Rightarrow> Inl e
                  | Inr (work_dir, st1) \<Rightarrow>
                      let statistics = \<lparr>total = 0, failure = 0\<rparr>;
                          statistics = statistics\<lparr>total := int (length files)\<rparr>;
                          s0 = \<lparr>stats = statistics, fs = st1, logged = [(INFO, START)]\<rparr>
                      in case for_range (loop_body run exe_path files work_dir args)
                                [0..<nat (total statistics)] s0 of
                           Inl e \<Rightarrow> Inl e
                         | Inr s \<Rightarrow>
                             Inr (0, s\<lparr>logged := logged s
                                        @ [(INFO, RESULT (total (stats s))
                                              (total (stats s) - failure (stats s))
                                              (failure (stats s))),
                                           (INFO, END)]\<rparr>)))"

text \<open>
  The script calls \<^verbatim>\<open>main()\<close> and drops its result. The exit status is 0 when
  \<^verbatim>\<open>main\<close> returns, the argument of \<^verbatim>\<open>SystemExit\<close> when that is raised, and 1 for any
  other uncaught exception.
\<close>

definition exit_status :: "error + 'a \<Rightarrow> int" where
  "exit_status r = (case r of Inr _ \<Rightarrow> 0 | Inl (SystemExit c) \<Rightarrow> c | Inl _ \<Rightarrow> 1)"

text \<open>
  The exit codes of the tool along a run over the indices given, in order: the list ends
  where a directory cannot be created or the tool cannot be started.
\<close>

fun outcomes ::
  "tool \<Rightarrow> string \<Rightarrow> string list \<Rightarrow> string option \<Rightarrow> namespace \<Rightarrow> nat list \<Rightarrow> os_state \<Rightarrow> int list" where
  "outcomes run exe_path files work_dir ns [] st = []"
| "outcomes run exe_path files work_dir ns (i # rest) st =
     (case extract_item run exe_path files work_dir ns i st of
        Inl e \<Rightarrow> []
      | Inr (separate_dir, rtn, st2) \<Rightarrow>
          returncode rtn # outcomes run exe_path files work_dir ns rest st2)"

subsection \<open>Path expansion as the specification words it\<close>

text \<open>
  Path expansion in the words of the specification: a file input contributes itself; a
  directory input contributes the paths of its direct entries that are regular files and
  whose names do not begin with a dot, in the order of enumeration. An input is valid
  when its absolute path is a regular file or a directory.
\<close>

definition spec_expand_one :: "os_state \<Rightarrow> string \<Rightarrow> string list" where
  "spec_expand_one st path =
     (let a = abspath st path
      in if isfile st a then [a]
         else map entry_path
                (filter (\<lambda>e. \<not> startswith_dot (entry_name e) \<and> entry_kind e = File)
                   (scandir st a)))"

definition spec_valid_input :: "os_state \<Rightarrow> string \<Rightarrow> bool" where
  "spec_valid_input st path = (isfile st (abspath st path) \<or> isdir st (abspath st path))"

subsection \<open>Example file systems and runs\<close>

text \<open>
  A directory \<^verbatim>\<open>/D\<close> in which the regular files \<^verbatim>\<open>a\<close> and \<^verbatim>\<open>a(1)\<close> exist, before
  and after \<^verbatim>\<open>create_dir\<close> is asked for \<^verbatim>\<open>a\<close>.
\<close>

definition fs_collision :: os_state where
  "fs_collision =
     \<lparr>cwd = ''/D'',
      nodes = [(''/'', Dir), (''/D'', Dir), (''/D/a'', File), (''/D/a(1)'', File)]\<rparr>"

definition fs_collision_after :: os_state where
  "fs_collision_after =
     \<lparr>cwd = ''/D'',
      nodes = [(''/'', Dir), (''/D'', Dir), (''/D/a'', File), (''/D/a(1)'', File),
               (''/D/a(2)'', Dir)]\<rparr>"

text \<open>
  A directory \<^verbatim>\<open>/D\<close> with three visible files, one hidden file and one
  sub-directory, and a directory \<^verbatim>\<open>/E\<close> whose only entry is hidden.
\<close>

definition fs_scan :: os_state where
  "fs_scan =
     \<lparr>cwd = ''/home/u'',
      nodes = [(''/'', Dir), (''/D'', Dir), (''/D/c.zip'', File), (''/D/.hidden'', File),
               (''/D/sub'', Dir), (''/D/sub/inner.zip'', File), (''/D/a.7z'', File),
               (''/D/b'', File), (''/E'', Dir), (''/E/.only'', File)]\<rparr>"

text \<open>
  A batch of two archives in directory \<^verbatim>\<open>/D\<close>, with a tool that succeeds on
  \<^verbatim>\<open>a.zip\<close> and reports a fatal error (2) on \<^verbatim>\<open>b.7z\<close>, and a tool that exits with
  code 3 on \<^verbatim>\<open>a.zip\<close>, and a tool that succeeds on \<^verbatim>\<open>a.zip\<close> and exits with code 3
  on \<^verbatim>\<open>b.7z\<close>. No tool touches the file system. The directory \<^verbatim>\<open>/empty\<close> has no
  entries.
\<close>

definition fs_batch :: os_state where
  "fs_batch =
     \<lparr>cwd = ''/D'',
      nodes = [(''/'', Dir), (''/D'', Dir), (''/D/a.zip'', File), (''/D/b.7z'', File),
               (''/opt'', Dir), (''/opt/7zz'', File), (''/empty'', Dir)]\<rparr>"

definition ns_batch :: namespace where
  "ns_batch =
     \<lparr>arg_codepage = None, arg_input = [''a.zip'', ''b.7z''], arg_output = None,
      arg_password = None, arg_exe = ''/opt/7zz''\<rparr>"

definition tool_ok_then_fatal :: tool where
  "tool_ok_then_fatal cmd ns = Inr (if last cmd = ''/D/b.7z'' then 2 else 0, ns)"

definition tool_exit3 :: tool where
  "tool_exit3 cmd ns = Inr (if last cmd = ''/D/a.zip'' then 3 else 0, ns)"

definition tool_ok_then_exit3 :: tool where
  "tool_ok_then_exit3 cmd ns = Inr (if last cmd = ''/D/b.7z'' then 3 else 0, ns)"

section \<open>Properties\<close>

subsection \<open>The command line\<close>

lemma seven_zip_cmd_shape:
  "seven_zip_cmd exe f out pw cp =
     [exe, ''x'', ''-y'', ''-aoa'', ''-o'' @ str_opt out]
     @ (if snd (splitext (basename f)) \<in> {''.zip'', ''.7z'', ''.rar'', ''''} \<and> pw \<noteq> None
        then [''-p'' @ str_opt pw] else [])
     @ (if snd (splitext (basename f)) \<in> {''.zip'', ''.tar''} \<and> cp \<noteq> None
        then [''-mcp='' @ str_int_opt cp] else [])
     @ [f]"
  by (simp add: seven_zip_cmd_def Let_def)

lemma cmd_options_seven_zip_cmd:
  "cmd_options (seven_zip_cmd exe f out pw cp) =
     (if snd (splitext (basename f)) \<in> {''.zip'', ''.7z'', ''.rar'', ''''} \<and> pw \<noteq> None
        then [''-p'' @ str_opt pw] else [])
     @ (if snd (splitext (basename f)) \<in> {''.zip'', ''.tar''} \<and> cp \<noteq> None
        then [''-mcp='' @ str_int_opt cp] else [])"
  unfolding cmd_options_def seven_zip_cmd_shape by (simp add: butlast_append)

text \<open>
  Claim C4, as amended. The command line built by \<^verbatim>\<open>seven_zip\<close> has a password
  switch among its options if and only if a password was supplied and the extension of
  the archive's base name, taken exactly as \<^verbatim>\<open>os.path.splitext\<close> returns it and compared
  case-sensitively, is one of \<^verbatim>\<open>.zip\<close>, \<^verbatim>\<open>.7z\<close>, \<^verbatim>\<open>.rar\<close> or the empty string; the
  switch then occurs once and is \<^verbatim>\<open>-p\<close> followed by the password. So
  \<^verbatim>\<open>secret.rar\<close> with a password gets the switch and \<^verbatim>\<open>secret.tar.gz\<close> does not.
\<close>

theorem password_flag_iff:
  "(has_password_flag (seven_zip_cmd exe f out pw cp)
      \<longleftrightarrow> pw \<noteq> None \<and> snd (splitext (basename f)) \<in> {''.zip'', ''.7z'', ''.rar'', ''''})
   \<and> filter is_password_flag (cmd_options (seven_zip_cmd exe f out pw cp))
       = (if pw \<noteq> None \<and> snd (splitext (basename f)) \<in> {''.zip'', ''.7z'', ''.rar'', ''''}
          then [''-p'' @ str_opt pw] else [])"
  unfolding has_password_flag_def cmd_options_seven_zip_cmd
  by (auto simp: is_password_flag_def)

theorem password_flag_iff_witness:
  "has_password_flag (seven_zip_cmd ''/opt/7zz'' ''/D/secret.rar'' (Some ''/D/secret'') (Some ''pw'') None)
   \<and> \<not> has_password_flag (seven_zip_cmd ''/opt/7zz'' ''/D/secret.tar.gz'' (Some ''/D/secret.tar'') (Some ''pw'') None)
   \<and> has_password_flag (seven_zip_cmd ''/opt/7zz'' ''/D/.secret'' (Some ''/D/.secret'') (Some ''pw'') None)"
proof -
  have rar: "snd (splitext (basename ''/D/secret.rar'')) = ''.rar''"
    by code_simp
  have gz: "snd (splitext (basename ''/D/secret.tar.gz'')) = ''.gz''"
    by code_simp
  have dot: "snd (splitext (basename ''/D/.secret'')) = ''''"
    by code_simp
  show ?thesis
    using password_flag_iff [of "''/opt/7zz''" "''/D/secret.rar''" "Some ''/D/secret''" "Some ''pw''" None]
      password_flag_iff [of "''/opt/7zz''" "''/D/secret.tar.gz''" "Some ''/D/secret.tar''" "Some ''pw''" None]
      password_flag_iff [of "''/opt/7zz''" "''/D/.secret''" "Some ''/D/.secret''" "Some ''pw''" None]
    by (simp add: rar gz dot)
qed

text \<open>
  Claim C4 as stated compares the extension in lowercase. The code compares it as given:
  for \<^verbatim>\<open>SECRET.ZIP\<close> the lowercased extension is \<^verbatim>\<open>.zip\<close>, yet no password switch is
  built.
\<close>

theorem password_flag_lowercase_counterexample:
  "\<not> (has_password_flag
         (seven_zip_cmd ''/opt/7zz'' ''/D/SECRET.ZIP'' (Some ''/D/SECRET'') (Some ''pw'') None)
       \<longleftrightarrow> Some ''pw'' \<noteq> None
            \<and> spec_password_extension (snd (splitext (basename ''/D/SECRET.ZIP''))))"
  by code_simp

text \<open>
  Claim C5. The command line has a code page switch among its options if and only if a
  code page was supplied and the extension of the archive's base name is \<^verbatim>\<open>.zip\<close> or
  \<^verbatim>\<open>.tar\<close>; and the archive path is always the last argument.
\<close>

theorem codepage_flag_iff_and_archive_last:
  "(has_codepage_flag (seven_zip_cmd exe f out pw cp)
      \<longleftrightarrow> cp \<noteq> None \<and> snd (splitext (basename f)) \<in> {''.zip'', ''.tar''})
   \<and> last (seven_zip_cmd exe f out pw cp) = f"
  unfolding has_codepage_flag_def cmd_options_seven_zip_cmd
  by (auto simp: is_codepage_flag_def is_password_flag_def seven_zip_cmd_shape)

theorem codepage_flag_iff_and_archive_last_witness:
  "has_codepage_flag (seven_zip_cmd ''/opt/7zz'' ''/D/data.zip'' (Some ''/D/data'') None (Some 65001))
   \<and> \<not> has_codepage_flag (seven_zip_cmd ''/opt/7zz'' ''/D/data.7z'' (Some ''/D/data'') None (Some 65001))
   \<and> last (seven_zip_cmd ''/opt/7zz'' ''/D/data.7z'' (Some ''/D/data'') None (Some 65001)) = ''/D/data.7z''"
proof -
  have zip: "snd (splitext (basename ''/D/data.zip'')) = ''.zip''"
    by code_simp
  have sz: "snd (splitext (basename ''/D/data.7z'')) = ''.7z''"
    by code_simp
  show ?thesis
    using codepage_flag_iff_and_archive_last [of "''/opt/7zz''" "''/D/data.zip''" "Some ''/D/data''" None "Some 65001"]
      codepage_flag_iff_and_archive_last [of "''/opt/7zz''" "''/D/data.7z''" "Some ''/D/data''" None "Some 65001"]
    by (simp add: zip sz)
qed

subsection \<open>Classifying the exit code\<close>

text \<open>
  Claim C3, as amended. For the six codes of the table the severity, the description and
  the success flag are as listed: 0 is info, \<^verbatim>\<open>No error\<close>, a success; 1 is warning,
  \<^verbatim>\<open>Warning\<close>; 2 is error, \<^verbatim>\<open>Fatal error\<close>; 7 is error, \<^verbatim>\<open>Command line error\<close>; 8 is
  error, \<^verbatim>\<open>Not enough memory for operation\<close>; 255 is warning,
  \<^verbatim>\<open>User stopped the process\<close>; all but 0 are failures. Every other code has severity
  error and is a failure.
\<close>

theorem outcome_table:
  "getSeverity 0 = INFO \<and> table_lookup 0 = Inr ''No error'' \<and> \<not> is_failure 0
   \<and> getSeverity 1 = WARNING \<and> table_lookup 1 = Inr ''Warning'' \<and> is_failure 1
   \<and> getSeverity 2 = ERROR \<and> table_lookup 2 = Inr ''Fatal error'' \<and> is_failure 2
   \<and> getSeverity 7 = ERROR \<and> table_lookup 7 = Inr ''Command line error'' \<and> is_failure 7
   \<and> getSeverity 8 = ERROR \<and> table_lookup 8 = Inr ''Not enough memory for operation''
     \<and> is_failure 8
   \<and> getSeverity 255 = WARNING \<and> table_lookup 255 = Inr ''User stopped the process''
     \<and> is_failure 255
   \<and> (c \<notin> {0, 1, 2, 7, 8, 255} \<longrightarrow> getSeverity c = ERROR \<and> is_failure c)"
  by (simp add: getSeverity_def table_lookup_def return_code_table_def is_failure_def)

theorem outcome_table_witness:
  "(3::int) \<notin> {0, 1, 2, 7, 8, 255} \<and> getSeverity 3 = ERROR \<and> is_failure 3"
  using outcome_table [of 3] by simp

text \<open>
  Claim C3 as stated gives every other code the description \<^verbatim>\<open>unknown code\<close>. The table
  has no such entry: looking up code 3 raises \<^verbatim>\<open>KeyError\<close>.
\<close>

theorem unknown_code_description_counterexample:
  "\<not> (getSeverity 3 = ERROR \<and> table_lookup 3 = Inr ''unknown code'' \<and> is_failure 3)"
  by (simp add: table_lookup_def return_code_table_def)

subsection \<open>Allocating a directory\<close>

lemma probe_first_free:
  "\<exists>k\<ge>i. probe st p i = p @ suffix k \<and> \<not> isfile st (p @ suffix k)
          \<and> (\<forall>j. i \<le> j \<and> j < k \<longrightarrow> isfile st (p @ suffix j))"
proof (induction st p i rule: probe.induct)
  case (1 st p i)
  show ?case
  proof (cases "isfile st (p @ suffix i)")
    case False
    then have "probe st p i = p @ suffix i"
      by (subst probe.simps) simp
    with False show ?thesis by auto
  next
    case True
    with 1 obtain k where k: "Suc i \<le> k" "probe st p (Suc i) = p @ suffix k"
      "\<not> isfile st (p @ suffix k)" "\<forall>j. Suc i \<le> j \<and> j < k \<longrightarrow> isfile st (p @ suffix j)"
      by auto
    from True have "probe st p i = probe st p (Suc i)"
      by (subst probe.simps) simp
    moreover have "\<forall>j. i \<le> j \<and> j < k \<longrightarrow> isfile st (p @ suffix j)"
      using True k(4) by (metis Suc_leI le_neq_implies_less)
    ultimately show ?thesis using k by (intro exI [of _ k]) auto
  qed
qed

lemma probe_cong:
  "(\<And>q. isfile st' q = isfile st q) \<Longrightarrow> probe st' p i = probe st p i"
proof (induction st p i rule: probe.induct)
  case (1 st p i)
  show ?case
  proof (cases "isfile st (p @ suffix i)")
    case False
    then show ?thesis using 1(2) by (simp add: probe.simps [of _ p i])
  next
    case True
    then have "probe st' p (Suc i) = probe st p (Suc i)"
      using 1 by simp
    with True show ?thesis using 1(2) by (simp add: probe.simps [of _ p i])
  qed
qed

lemma map_of_const_entries:
  "map_of (map (\<lambda>a. (a, v)) xs @ [(n, v)]) q = (if q \<in> set xs \<or> q = n then Some v else None)"
  by (induction xs) auto

lemma lookup_makedirs:
  assumes "makedirs st name = Inr st'"
  shows "lookup st' q =
           (case lookup st q of
              Some n \<Rightarrow> Some n
            | None \<Rightarrow> if q = name \<or> q \<in> set (ancestors name) then Some Dir else None)"
proof -
  let ?new = "map (\<lambda>a. (a, Dir)) (filter (\<lambda>a. \<not> path_exists st a) (ancestors name)) @ [(name, Dir)]"
  from assms have st': "nodes st' = nodes st @ ?new"
    by (auto simp: makedirs_def split: if_splits)
  have new: "map_of ?new q = (if q \<in> fst ` set ?new then Some Dir else None)"
    unfolding map_of_const_entries by force
  show ?thesis
  proof (cases "lookup st q")
    case (Some n)
    then show ?thesis by (simp add: lookup_def st' map_add_def)
  next
    case None
    then have "\<not> path_exists st q" by (simp add: path_exists_def)
    then have "q \<in> fst ` set ?new \<longleftrightarrow> q = name \<or> q \<in> set (ancestors name)"
      by force
    with None new show ?thesis
      by (simp add: lookup_def st' map_add_def)
  qed
qed

lemma makedirs_effect:
  assumes "makedirs st name = Inr st'"
  shows "isdir st' name" and "cwd st' = cwd st" and "isfile st' q = isfile st q"
    and "lookup st name = None"
proof -
  from assms show none: "lookup st name = None"
    by (auto simp: makedirs_def path_exists_def split: if_splits)
  then show "isdir st' name"
    by (simp add: isdir_def lookup_makedirs [OF assms])
  from assms show "cwd st' = cwd st"
    by (auto simp: makedirs_def split: if_splits)
  show "isfile st' q = isfile st q"
    by (auto simp: isfile_def lookup_makedirs [OF assms] split: option.splits)
qed

lemma makedirs_refused:
  assumes "makedirs st name = Inl e"
  shows "e = OSError FileExistsError \<and> path_exists st name
         \<or> e = OSError NotADirectoryError
             \<and> list_ex (\<lambda>a. path_exists st a \<and> \<not> isdir st a) (ancestors name)"
  using assms by (auto simp: makedirs_def split: if_splits)

text \<open>
  Claim C7. If a call of \<^verbatim>\<open>create_dir\<close> returns, a second call with the same argument
  on the file system the first call left behind returns the same path, raises nothing
  and leaves the file system as it is (no directory is created again).
\<close>

theorem create_dir_idempotent:
  assumes "create_dir st dir_path = Inr (r, st')"
  shows "create_dir st' dir_path = Inr (r, st')"
proof (cases "truthy dir_path")
  case False
  with assms show ?thesis by (simp add: create_dir_def)
next
  case True
  define a where "a = abspath st (str_opt dir_path)"
  define t where "t = (if isfile st a then probe st a 1 else a)"
  from assms True have res:
    "(if \<not> isdir st t
      then (case makedirs st t of Inl e \<Rightarrow> Inl e | Inr st1 \<Rightarrow> Inr (Some t, st1))
      else Inr (Some t, st)) = Inr (r, st')"
    unfolding create_dir_def Let_def a_def t_def by (simp only: if_True)
  have same: "isdir st' t \<and> cwd st' = cwd st \<and> (\<forall>q. isfile st' q = isfile st q) \<and> r = Some t"
  proof (cases "isdir st t")
    case True
    with res show ?thesis by simp
  next
    case False
    with res obtain st1 where "makedirs st t = Inr st1" "st1 = st'" "r = Some t"
      by (auto split: sum.splits)
    then show ?thesis using makedirs_effect [of st t st'] by simp
  qed
  then have a': "abspath st' (str_opt dir_path) = a"
    by (simp add: abspath_def a_def)
  have "probe st' a 1 = probe st a 1"
    by (rule probe_cong) (simp add: same)
  then have t': "(if isfile st' a then probe st' a 1 else a) = t"
    by (simp add: t_def same)
  show ?thesis
    unfolding create_dir_def Let_def a' t' using True same by simp
qed

theorem create_dir_idempotent_witness:
  "create_dir fs_collision (Some ''a'') = Inr (Some ''/D/a(2)'', fs_collision_after)
   \<and> create_dir fs_collision_after (Some ''a'') = Inr (Some ''/D/a(2)'', fs_collision_after)"
proof -
  have first: "create_dir fs_collision (Some ''a'') = Inr (Some ''/D/a(2)'', fs_collision_after)"
    by code_simp
  from create_dir_idempotent [OF first] first show ?thesis by simp
qed

text \<open>
  Claim C6. Let a regular file exist at the absolute form of a non-empty desired path.
  Then there is a first \<open>k \<ge> 1\<close> whose suffixed variant \<^verbatim>\<open><path>(k)\<close> is not a regular
  file (all variants with smaller numbers are regular files). When \<^verbatim>\<open>create_dir\<close>
  returns, it returns exactly that variant, which is then a directory and no regular
  file; no regular file appears or disappears, and nothing is changed when the variant
  was a directory already. \<^verbatim>\<open>create_dir\<close> raises only when the file system refuses to
  create that directory: the variant exists as something that is neither a regular file
  nor a directory, or one of its ancestors is not a directory.
\<close>

theorem create_dir_file_collision:
  assumes "dir_path \<noteq> []" and "isfile st (abspath st dir_path)"
  shows "\<exists>k\<ge>1.
           (\<forall>j. 1 \<le> j \<and> j < k \<longrightarrow> isfile st (abspath st dir_path @ suffix j))
           \<and> \<not> isfile st (abspath st dir_path @ suffix k)
           \<and> (case create_dir st (Some dir_path) of
                 Inr (r, st') \<Rightarrow>
                   r = Some (abspath st dir_path @ suffix k)
                   \<and> isdir st' (abspath st dir_path @ suffix k)
                   \<and> \<not> isfile st' (abspath st dir_path @ suffix k)
                   \<and> (\<forall>q. isfile st' q = isfile st q)
                   \<and> (isdir st (abspath st dir_path @ suffix k) \<longrightarrow> st' = st)
               | Inl e \<Rightarrow>
                   \<not> isdir st (abspath st dir_path @ suffix k)
                   \<and> (e = OSError FileExistsError
                          \<and> lookup st (abspath st dir_path @ suffix k) = Some Other
                        \<or> e = OSError NotADirectoryError
                          \<and> list_ex (\<lambda>a. path_exists st a \<and> \<not> isdir st a)
                                (ancestors (abspath st dir_path @ suffix k))))"
proof -
  define a where "a = abspath st dir_path"
  obtain k where k: "1 \<le> k" "probe st a 1 = a @ suffix k" "\<not> isfile st (a @ suffix k)"
    "\<forall>j. 1 \<le> j \<and> j < k \<longrightarrow> isfile st (a @ suffix j)"
    using probe_first_free [of 1 st a] by auto
  define t where "t = a @ suffix k"
  have cd: "create_dir st (Some dir_path) =
              (if \<not> isdir st t
               then (case makedirs st t of Inl e \<Rightarrow> Inl e | Inr st1 \<Rightarrow> Inr (Some t, st1))
               else Inr (Some t, st))"
    using assms k(2) by (simp add: create_dir_def a_def t_def Let_def del: One_nat_def cong del: sum.case_cong_weak)
  have "case create_dir st (Some dir_path) of
          Inr (r, st') \<Rightarrow>
            r = Some t \<and> isdir st' t \<and> \<not> isfile st' t \<and> (\<forall>q. isfile st' q = isfile st q)
            \<and> (isdir st t \<longrightarrow> st' = st)
        | Inl e \<Rightarrow>
            \<not> isdir st t
            \<and> (e = OSError FileExistsError \<and> lookup st t = Some Other
                 \<or> e = OSError NotADirectoryError
                   \<and> list_ex (\<lambda>a. path_exists st a \<and> \<not> isdir st a) (ancestors t))"
  proof (cases "isdir st t")
    case True
    then show ?thesis using k(3) by (simp add: cd t_def)
  next
    case False
    show ?thesis
    proof (cases "makedirs st t")
      case (Inr st1)
      then show ?thesis
        using False k(3) makedirs_effect [OF Inr] by (simp add: cd t_def)
    next
      case (Inl e)
      have "lookup st t = Some Other" if "path_exists st t"
      proof -
        from that obtain n where "lookup st t = Some n"
          by (auto simp: path_exists_def)
        with False k(3) show ?thesis
          by (cases n) (auto simp: isfile_def isdir_def t_def)
      qed
      then show ?thesis
        using False makedirs_refused [OF Inl] by (auto simp: cd Inl)
    qed
  qed
  then show ?thesis
    using k(1,3,4) unfolding t_def a_def by (intro exI [of _ k]) simp
qed

theorem create_dir_file_collision_witness:
  "''a'' \<noteq> [] \<and> isfile fs_collision (abspath fs_collision ''a'')
   \<and> create_dir fs_collision (Some ''a'') = Inr (Some ''/D/a(2)'', fs_collision_after)
   \<and> (\<exists>k\<ge>1. \<not> isfile fs_collision (abspath fs_collision ''a'' @ suffix k)
          \<and> (\<forall>j. 1 \<le> j \<and> j < k \<longrightarrow> isfile fs_collision (abspath fs_collision ''a'' @ suffix j))
          \<and> Some ''/D/a(2)'' = Some (abspath fs_collision ''a'' @ suffix k)
          \<and> isdir fs_collision_after (abspath fs_collision ''a'' @ suffix k))"
proof -
  have h1: "''a'' \<noteq> []" by simp
  have h2: "isfile fs_collision (abspath fs_collision ''a'')" by code_simp
  have run: "create_dir fs_collision (Some ''a'') = Inr (Some ''/D/a(2)'', fs_collision_after)"
    by code_simp
  from create_dir_file_collision [OF h1 h2] h2 run show ?thesis
    by auto
qed

subsection \<open>Expanding the input paths\<close>

lemma scan_entries_flat:
  "scan_entries depth False st it files =
     Inr (files @ map entry_path
            (filter (\<lambda>e. \<not> startswith_dot (entry_name e) \<and> entry_kind e = File) it))"
  by (induction it arbitrary: files) auto

lemma path_loop_flat:
  "path_loop depth False st path_list files =
     (if list_all (spec_valid_input st) path_list
      then Inr (Some (files @ concat (map (spec_expand_one st) path_list)))
      else Inr None)"
proof (induction path_list arbitrary: files)
  case Nil
  show ?case by simp
next
  case (Cons path path_list)
  have e: "spec_expand_one st path =
             (if isfile st (abspath st path) then [abspath st path]
              else map entry_path
                     (filter (\<lambda>e. \<not> startswith_dot (entry_name e) \<and> entry_kind e = File)
                        (scandir st (abspath st path))))"
    by (simp add: spec_expand_one_def)
  have v: "spec_valid_input st path \<longleftrightarrow> isfile st (abspath st path) \<or> isdir st (abspath st path)"
    by (simp add: spec_valid_input_def)
  show ?case
    by (simp add: Cons.IH Let_def search_sub_dir_def scan_entries_flat e v)
qed

lemma get_file_list_flat:
  "get_file_list st path_list False =
     (if list_all (spec_valid_input st) path_list
         \<and> concat (map (spec_expand_one st) path_list) \<noteq> []
      then Inr (concat (map (spec_expand_one st) path_list))
      else Inl (SystemExit (- 2)))"
  by (simp add: get_file_list_def path_loop_flat)

text \<open>
  Claim C8. Without recursion, \<^verbatim>\<open>get_file_list\<close> returns the concatenation, in input
  order, of what each input contributes: its absolute path when that is a regular file,
  and otherwise the paths of the direct entries of the directory that are regular files
  with names not beginning with a dot, in enumeration order; sub-directories contribute
  nothing. Nothing is removed as a duplicate or for its extension. The list is returned
  when every input is a file or a directory and the list is not empty; otherwise the
  process exits with \<open>-2\<close>.
\<close>

theorem get_file_list_expansion:
  "get_file_list st path_list False =
     (if list_all (spec_valid_input st) path_list
         \<and> concat (map (spec_expand_one st) path_list) \<noteq> []
      then Inr (concat (map (spec_expand_one st) path_list))
      else Inl (SystemExit (- 2)))
   \<and> (isfile st (abspath st path) \<longrightarrow> spec_expand_one st path = [abspath st path])
   \<and> (\<not> isfile st (abspath st path) \<longrightarrow>
        spec_expand_one st path =
          map entry_path
            (filter (\<lambda>e. \<not> startswith_dot (entry_name e) \<and> entry_kind e = File)
               (scandir st (abspath st path))))"
proof (intro conjI impI)
  have loop: "path_loop recursion_limit False st path_list [] =
                (if list_all (spec_valid_input st) path_list
                 then Inr (Some (concat (map (spec_expand_one st) path_list)))
                 else Inr None)"
    using path_loop_flat [of recursion_limit st path_list "[]"] by simp
  show "get_file_list st path_list False =
          (if list_all (spec_valid_input st) path_list
              \<and> concat (map (spec_expand_one st) path_list) \<noteq> []
           then Inr (concat (map (spec_expand_one st) path_list))
           else Inl (SystemExit (- 2)))"
    unfolding get_file_list_def loop by simp
next
  assume "isfile st (abspath st path)"
  then show "spec_expand_one st path = [abspath st path]"
    by (simp add: spec_expand_one_def)
next
  assume "\<not> isfile st (abspath st path)"
  then show "spec_expand_one st path =
               map entry_path
                 (filter (\<lambda>e. \<not> startswith_dot (entry_name e) \<and> entry_kind e = File)
                    (scandir st (abspath st path)))"
    by (simp add: spec_expand_one_def)
qed

theorem get_file_list_expansion_witness:
  "get_file_list fs_scan [''/D''] False = Inr [''/D/c.zip'', ''/D/a.7z'', ''/D/b'']
   \<and> get_file_list fs_scan [''/D/b'', ''/D'', ''/D/b''] False
       = Inr [''/D/b'', ''/D/c.zip'', ''/D/a.7z'', ''/D/b'', ''/D/b'']"
proof -
  have d: "spec_expand_one fs_scan ''/D'' = [''/D/c.zip'', ''/D/a.7z'', ''/D/b'']"
    by code_simp
  have b: "spec_expand_one fs_scan ''/D/b'' = [''/D/b'']"
    by code_simp
  have v: "spec_valid_input fs_scan ''/D''" "spec_valid_input fs_scan ''/D/b''"
    by code_simp+
  show ?thesis
    using get_file_list_expansion [of fs_scan "[''/D'']"]
      get_file_list_expansion [of fs_scan "[''/D/b'', ''/D'', ''/D/b'']"]
    by (simp add: d b v)
qed

text \<open>
  Claim C10. An input whose absolute path is a regular file is part of the result
  whatever its base name is, also when the name begins with a dot: the test for a leading
  dot is applied only to the entries of an enumerated directory. The expansion as a whole
  fails (exit \<open>-2\<close>) only when some input is neither a file nor a directory.
\<close>

theorem named_file_always_included:
  assumes "path \<in> set path_list" and "isfile st (abspath st path)"
  shows "case get_file_list st path_list False of
           Inr files \<Rightarrow> abspath st path \<in> set files
         | Inl e \<Rightarrow> e = SystemExit (- 2) \<and> \<not> list_all (spec_valid_input st) path_list"
proof -
  from assms have "abspath st path \<in> set (concat (map (spec_expand_one st) path_list))"
    by (auto simp: spec_expand_one_def intro!: bexI [of _ path])
  then show ?thesis
    by (auto simp: get_file_list_flat)
qed

theorem named_file_always_included_witness:
  "startswith_dot (basename ''/D/.hidden'')
   \<and> isfile fs_scan (abspath fs_scan ''/D/.hidden'')
   \<and> get_file_list fs_scan [''/D/.hidden''] False = Inr [''/D/.hidden'']
   \<and> get_file_list fs_scan [''/D''] False = Inr [''/D/c.zip'', ''/D/a.7z'', ''/D/b'']"
proof -
  have h1: "''/D/.hidden'' \<in> set [''/D/.hidden'']" by simp
  have h2: "isfile fs_scan (abspath fs_scan ''/D/.hidden'')" by code_simp
  have a: "abspath fs_scan ''/D/.hidden'' = ''/D/.hidden''" by code_simp
  have r: "get_file_list fs_scan [''/D/.hidden''] False = Inr [''/D/.hidden'']" by code_simp
  have d: "get_file_list fs_scan [''/D''] False = Inr [''/D/c.zip'', ''/D/a.7z'', ''/D/b'']"
    by code_simp
  have dot: "startswith_dot (basename ''/D/.hidden'')" by code_simp
  from named_file_always_included [OF h1 h2] h2 r d dot show ?thesis
    by simp
qed

subsection \<open>The batch run\<close>

lemma table_lookup_cases:
  "table_lookup c = (if c \<in> {0, 1, 2, 7, 8, 255} then Inr (the (map_of return_code_table c)) else Inl (KeyError c))"
  by (simp add: table_lookup_def return_code_table_def)

lemma for_range_loop_body:
  "case for_range (loop_body run exe_path files work_dir ns) range_list s of
     Inr s' \<Rightarrow>
       total (stats s') = total (stats s)
       \<and> failure (stats s')
           = failure (stats s)
             + int (length (filter (\<lambda>c. c \<noteq> 0)
                      (outcomes run exe_path files work_dir ns range_list (fs s))))
       \<and> length (outcomes run exe_path files work_dir ns range_list (fs s)) = length range_list
   | Inl e \<Rightarrow>
       length (outcomes run exe_path files work_dir ns range_list (fs s)) < length range_list
       \<or> list_ex (\<lambda>c. c \<notin> {0, 1, 2, 7, 8, 255})
            (outcomes run exe_path files work_dir ns range_list (fs s))"
proof (induction range_list arbitrary: s)
  case Nil
  show ?case by simp
next
  case (Cons i rest)
  show ?case
  proof (cases "extract_item run exe_path files work_dir ns i (fs s)")
    case (Inl e)
    then show ?thesis by (simp add: loop_body_def)
  next
    case (Inr triple)
    obtain separate_dir rtn st2 where triple: "triple = (separate_dir, rtn, st2)"
      by (cases triple) auto
    show ?thesis
    proof (cases "returncode rtn \<in> {0, 1, 2, 7, 8, 255}")
      case False
      then show ?thesis
        using Inr triple by (simp add: loop_body_def table_lookup_cases Let_def)
    next
      case True
      define s1 where "s1 =
        \<lparr>stats = (if is_failure (returncode rtn)
                  then (stats s)\<lparr>failure := failure (stats s) + 1\<rparr> else stats s),
         fs = st2,
         logged = (logged s @ [(INFO, IDX_TOTAL (int i + 1) (total (stats s)))])
                  @ [(INFO, IN_FILE (files ! i)), (INFO, OUT_DIR separate_dir)]
                  @ [(getSeverity (returncode rtn),
                      CMDSTATUS (returncode rtn) (the (map_of return_code_table (returncode rtn))))]\<rparr>"
      have body: "loop_body run exe_path files work_dir ns i s = Inr s1"
        using Inr triple True by (simp add: loop_body_def table_lookup_cases Let_def s1_def)
      have s1: "fs s1 = st2" "total (stats s1) = total (stats s)"
        "failure (stats s1) = failure (stats s) + (if returncode rtn \<noteq> 0 then 1 else 0)"
        by (simp_all add: s1_def is_failure_def)
      show ?thesis
        using Cons.IH [of s1] True Inr triple
        by (auto simp: body s1 split: sum.splits)
    qed
  qed
qed

lemma main_batch:
  assumes "check_argument st ns = Inr ns"
    and "get_file_list st (arg_input ns) False = Inr files"
    and "create_dir st (arg_output ns) = Inr (work_dir, st1)"
  shows "main run st ns =
           (case for_range (loop_body run (abspath st (arg_exe ns)) files work_dir ns)
                   [0..<length files]
                   \<lparr>stats = \<lparr>total = int (length files), failure = 0\<rparr>, fs = st1,
                    logged = [(INFO, START)]\<rparr> of
              Inl e \<Rightarrow> Inl e
            | Inr s \<Rightarrow>
                Inr (0, s\<lparr>logged := logged s
                           @ [(INFO, RESULT (total (stats s))
                                 (total (stats s) - failure (stats s)) (failure (stats s))),
                              (INFO, END)]\<rparr>))"
  using assms by (simp add: main_def Let_def)

text \<open>
  The statistics of a run that returns. Take a batch run: the arguments were accepted,
  the inputs expanded to the list \<open>files\<close> and the output root was allocated. Let
  \<open>codes\<close> be the exit codes of the external tool, one for each archive it was started
  on, in order. When \<^verbatim>\<open>main\<close> returns, the tool has been run on every file, \<open>total\<close>
  is the number of files, \<open>failure\<close> is the number of exit codes other than 0, and
  \<open>total - failure\<close> is the number of exit codes equal to 0. \<^verbatim>\<open>main\<close> returns unless
  an archive's directory could not be created or the tool could not be started on it
  (then there are fewer codes than files) or some exit code is not a key of the table of
  return values.
\<close>

lemma run_statistics:
  assumes "check_argument st ns = Inr ns"
    and "get_file_list st (arg_input ns) False = Inr files"
    and "create_dir st (arg_output ns) = Inr (work_dir, st1)"
  shows "let codes = outcomes run (abspath st (arg_exe ns)) files work_dir ns
                       [0..<length files] st1
         in case main run st ns of
              Inr (rc, s) \<Rightarrow>
                total (stats s) = int (length files)
                \<and> length codes = length files
                \<and> failure (stats s) = int (length (filter (\<lambda>c. c \<noteq> 0) codes))
                \<and> total (stats s) - failure (stats s) = int (length (filter (\<lambda>c. c = 0) codes))
            | Inl e \<Rightarrow>
                length codes < length files
                \<or> list_ex (\<lambda>c. c \<notin> {0, 1, 2, 7, 8, 255}) codes"
proof -
  define codes where
    "codes = outcomes run (abspath st (arg_exe ns)) files work_dir ns [0..<length files] st1"
  define s0 where
    "s0 = \<lparr>stats = \<lparr>total = int (length files), failure = 0\<rparr>, fs = st1,
            logged = [(INFO, START)]\<rparr>"
  have split: "length (filter (\<lambda>c. c \<noteq> 0) codes) + length (filter (\<lambda>c. c = 0) codes)
                 = length codes"
    using sum_length_filter_compl [of "\<lambda>c. c \<noteq> 0" codes] by simp
  have loop:
    "case for_range (loop_body run (abspath st (arg_exe ns)) files work_dir ns)
            [0..<length files] s0 of
       Inr s' \<Rightarrow>
         total (stats s') = int (length files)
         \<and> failure (stats s') = int (length (filter (\<lambda>c. c \<noteq> 0) codes))
         \<and> length codes = length files
     | Inl e \<Rightarrow>
         length codes < length files \<or> list_ex (\<lambda>c. c \<notin> {0, 1, 2, 7, 8, 255}) codes"
    using for_range_loop_body
      [of run "abspath st (arg_exe ns)" files work_dir ns "[0..<length files]" s0]
    by (simp add: codes_def s0_def split: sum.splits)
  have "case main run st ns of
          Inr (rc, s) \<Rightarrow>
            total (stats s) = int (length files)
            \<and> length codes = length files
            \<and> failure (stats s) = int (length (filter (\<lambda>c. c \<noteq> 0) codes))
            \<and> total (stats s) - failure (stats s) = int (length (filter (\<lambda>c. c = 0) codes))
        | Inl e \<Rightarrow>
            length codes < length files \<or> list_ex (\<lambda>c. c \<notin> {0, 1, 2, 7, 8, 255}) codes"
    using loop split unfolding main_batch [OF assms] s0_def [symmetric]
    by (auto split: sum.splits)
  then show ?thesis
    unfolding codes_def Let_def .
qed

lemma run_statistics_example:
  "check_argument fs_batch ns_batch = Inr ns_batch
   \<and> get_file_list fs_batch (arg_input ns_batch) False = Inr [''/D/a.zip'', ''/D/b.7z'']
   \<and> create_dir fs_batch (arg_output ns_batch) = Inr (None, fs_batch)
   \<and> outcomes tool_ok_then_fatal (abspath fs_batch (arg_exe ns_batch))
         [''/D/a.zip'', ''/D/b.7z''] None ns_batch [0..<2] fs_batch = [0, 2]
   \<and> (case main tool_ok_then_fatal fs_batch ns_batch of
         Inr (rc, s) \<Rightarrow> total (stats s) = 2 \<and> failure (stats s) = 1
       | Inl e \<Rightarrow> False)"
proof -
  have h1: "check_argument fs_batch ns_batch = Inr ns_batch"
    by code_simp
  have h2: "get_file_list fs_batch (arg_input ns_batch) False = Inr [''/D/a.zip'', ''/D/b.7z'']"
    by code_simp
  have h3: "create_dir fs_batch (arg_output ns_batch) = Inr (None, fs_batch)"
    by code_simp
  have codes: "outcomes tool_ok_then_fatal (abspath fs_batch (arg_exe ns_batch))
                 [''/D/a.zip'', ''/D/b.7z''] None ns_batch [0..<2] fs_batch = [0, 2]"
    by code_simp
  have len: "length [''/D/a.zip'', ''/D/b.7z''] = 2"
    by simp
  note inst = run_statistics [OF h1 h2 h3, of tool_ok_then_fatal, unfolded Let_def len codes]
  have "case main tool_ok_then_fatal fs_batch ns_batch of
          Inr (rc, s) \<Rightarrow> total (stats s) = 2 \<and> failure (stats s) = 1
        | Inl e \<Rightarrow> False"
    using inst by (auto split: sum.splits)
  with h1 h2 h3 codes show ?thesis by simp
qed

text \<open>
  Claim C1 says that every batch run over \<open>N\<close> resolved files ends with statistics whose
  total is \<open>N\<close> and whose failure count is the number of archives with an exit code
  other than 0. Take the batch of two archives and a tool that succeeds on the first and
  exits with code 3 on the second: the arguments are accepted, the inputs expand to two
  files, the tool runs on both with exit codes 0 and 3, and 3 counts as a failure. The
  claim promises the statistics total 2, failure 1. \<^verbatim>\<open>main\<close> instead raises \<^verbatim>\<open>KeyError\<close>
  at \<^verbatim>\<open>return_code_table[3]\<close>, after the failure was counted and before the summary:
  the run has no statistics at all.
\<close>

theorem unknown_exit_code_leaves_no_statistics:
  "check_argument fs_batch ns_batch = Inr ns_batch
   \<and> get_file_list fs_batch (arg_input ns_batch) False = Inr [''/D/a.zip'', ''/D/b.7z'']
   \<and> create_dir fs_batch (arg_output ns_batch) = Inr (None, fs_batch)
   \<and> outcomes tool_ok_then_exit3 (abspath fs_batch (arg_exe ns_batch))
         [''/D/a.zip'', ''/D/b.7z''] None ns_batch [0..<2] fs_batch = [0, 3]
   \<and> is_failure 3
   \<and> main tool_ok_then_exit3 fs_batch ns_batch = Inl (KeyError 3)"
  by code_simp

text \<open>
  Claim C2 says that every exit code of the tool is handled, counted and logged and the
  batch goes on. With a tool that exits with code 3 on the first of two archives,
  \<^verbatim>\<open>main\<close> raises \<^verbatim>\<open>KeyError\<close> at \<^verbatim>\<open>return_code_table[3]\<close>: the second archive is never
  processed and no statistics are reported.
\<close>

theorem unknown_exit_code_aborts_batch:
  "main tool_exit3 fs_batch ns_batch = Inl (KeyError 3)
   \<and> get_file_list fs_batch (arg_input ns_batch) False = Inr [''/D/a.zip'', ''/D/b.7z'']
   \<and> getSeverity 3 = ERROR"
  by code_simp

text \<open>
  Claim C9. When the batch run completes (every archive was extracted into its
  directory and every exit code is in the table), the process exits with status 0,
  however many of the exit codes are failures. When the executable is missing or its
  name is not recognised, or an input is neither a file nor a directory, or the inputs
  expand to no file at all, the process exits with \<open>-2\<close>.
\<close>

theorem exit_codes:
  "(check_argument st ns = Inr ns
      \<and> get_file_list st (arg_input ns) False = Inr files
      \<and> create_dir st (arg_output ns) = Inr (work_dir, st1)
      \<and> length (outcomes run (abspath st (arg_exe ns)) files work_dir ns
                  [0..<length files] st1) = length files
      \<and> list_all (\<lambda>c. c \<in> {0, 1, 2, 7, 8, 255})
            (outcomes run (abspath st (arg_exe ns)) files work_dir ns [0..<length files] st1)
    \<longrightarrow> (\<exists>s. main run st ns = Inr (0, s)) \<and> exit_status (main run st ns) = 0)
   \<and> (main run st ns = Inr (rc, s) \<longrightarrow> rc = 0 \<and> exit_status (main run st ns) = 0)
   \<and> (\<not> isfile st (abspath st (arg_exe ns))
        \<or> fst (splitext (basename (arg_exe ns))) \<notin> set main_executables
        \<or> \<not> list_all (spec_valid_input st) (arg_input ns)
        \<or> concat (map (spec_expand_one st) (arg_input ns)) = []
    \<longrightarrow> main run st ns = Inl (SystemExit (- 2)) \<and> exit_status (main run st ns) = - 2)"
proof (intro conjI impI)
  assume a: "check_argument st ns = Inr ns
      \<and> get_file_list st (arg_input ns) False = Inr files
      \<and> create_dir st (arg_output ns) = Inr (work_dir, st1)
      \<and> length (outcomes run (abspath st (arg_exe ns)) files work_dir ns
                  [0..<length files] st1) = length files
      \<and> list_all (\<lambda>c. c \<in> {0, 1, 2, 7, 8, 255})
            (outcomes run (abspath st (arg_exe ns)) files work_dir ns [0..<length files] st1)"
  define s0 where
    "s0 = \<lparr>stats = \<lparr>total = int (length files), failure = 0\<rparr>, fs = st1,
            logged = [(INFO, START)]\<rparr>"
  have "\<exists>s'. for_range (loop_body run (abspath st (arg_exe ns)) files work_dir ns)
               [0..<length files] s0 = Inr s'"
    using for_range_loop_body
      [of run "abspath st (arg_exe ns)" files work_dir ns "[0..<length files]" s0] a
    by (auto simp: s0_def list_all_iff list_ex_iff split: sum.splits)
  then obtain s' where "for_range (loop_body run (abspath st (arg_exe ns)) files work_dir ns)
               [0..<length files] s0 = Inr s'" ..
  then have m: "\<exists>s. main run st ns = Inr (0, s)"
    using a by (simp add: main_batch s0_def)
  then show "\<exists>s. main run st ns = Inr (0, s)" .
  from m show "exit_status (main run st ns) = 0"
    by (auto simp: exit_status_def)
next
  assume "main run st ns = Inr (rc, s)"
  then show "rc = 0"
    by (auto simp: main_def Let_def split: sum.splits prod.splits)
next
  assume "main run st ns = Inr (rc, s)"
  then show "exit_status (main run st ns) = 0"
    by (simp add: exit_status_def)
next
  assume bad: "\<not> isfile st (abspath st (arg_exe ns))
        \<or> fst (splitext (basename (arg_exe ns))) \<notin> set main_executables
        \<or> \<not> list_all (spec_valid_input st) (arg_input ns)
        \<or> concat (map (spec_expand_one st) (arg_input ns)) = []"
  show m: "main run st ns = Inl (SystemExit (- 2))"
  proof (cases "check_argument st ns")
    case (Inl e)
    then have "e = SystemExit (- 2)"
      by (auto simp: check_argument_def Let_def split: if_splits)
    with Inl show ?thesis by (simp add: main_def)
  next
    case (Inr ns')
    then have ok: "ns' = ns" "isfile st (abspath st (arg_exe ns))"
      "fst (splitext (basename (arg_exe ns))) \<in> set main_executables"
      by (auto simp: check_argument_def Let_def split: if_splits)
    with bad have "get_file_list st (arg_input ns) False = Inl (SystemExit (- 2))"
      by (auto simp: get_file_list_flat)
    with Inr ok show ?thesis by (simp add: main_def)
  qed
  then show "exit_status (main run st ns) = - 2"
    by (simp add: exit_status_def)
qed

theorem exit_codes_witness:
  "failure (stats (snd (projr (main tool_ok_then_fatal fs_batch ns_batch)))) = 1
   \<and> exit_status (main tool_ok_then_fatal fs_batch ns_batch) = 0
   \<and> exit_status (main tool_ok_then_fatal fs_batch (ns_batch\<lparr>arg_exe := ''/opt/7za''\<rparr>)) = - 2
   \<and> exit_status (main tool_ok_then_fatal fs_batch (ns_batch\<lparr>arg_exe := ''/D/a.zip''\<rparr>)) = - 2
   \<and> exit_status (main tool_ok_then_fatal fs_batch (ns_batch\<lparr>arg_input := [''a.zip'', ''missing.zip'']\<rparr>)) = - 2
   \<and> exit_status (main tool_ok_then_fatal fs_batch (ns_batch\<lparr>arg_input := [''/empty'']\<rparr>)) = - 2"
proof -
  have h1: "check_argument fs_batch ns_batch = Inr ns_batch"
    by code_simp
  have h2: "get_file_list fs_batch (arg_input ns_batch) False = Inr [''/D/a.zip'', ''/D/b.7z'']"
    by code_simp
  have h3: "create_dir fs_batch (arg_output ns_batch) = Inr (None, fs_batch)"
    by code_simp
  have codes: "outcomes tool_ok_then_fatal (abspath fs_batch (arg_exe ns_batch))
                 [''/D/a.zip'', ''/D/b.7z''] None ns_batch [0..<2] fs_batch = [0, 2]"
    by code_simp
  have len: "length [''/D/a.zip'', ''/D/b.7z''] = 2"
    by simp
  have failed: "failure (stats (snd (projr (main tool_ok_then_fatal fs_batch ns_batch)))) = 1"
    by code_simp
  note completes = exit_codes [THEN conjunct1, rule_format]
  note rejected = exit_codes [THEN conjunct2, THEN conjunct2, rule_format, THEN conjunct2]
  have full: "length (outcomes tool_ok_then_fatal (abspath fs_batch (arg_exe ns_batch))
                 [''/D/a.zip'', ''/D/b.7z''] None ns_batch
                 [0..<length [''/D/a.zip'', ''/D/b.7z'']] fs_batch)
              = length [''/D/a.zip'', ''/D/b.7z'']"
    unfolding len codes by simp
  have known: "list_all (\<lambda>c. c \<in> {0, 1, 2, 7, 8, 255})
                 (outcomes tool_ok_then_fatal (abspath fs_batch (arg_exe ns_batch))
                    [''/D/a.zip'', ''/D/b.7z''] None ns_batch
                    [0..<length [''/D/a.zip'', ''/D/b.7z'']] fs_batch)"
    unfolding len codes by simp
  have ok: "exit_status (main tool_ok_then_fatal fs_batch ns_batch) = 0"
    by (rule completes [THEN conjunct2,
          OF conjI [OF h1 conjI [OF h2 conjI [OF h3 conjI [OF full known]]]]])
  have x1: "exit_status (main tool_ok_then_fatal fs_batch (ns_batch\<lparr>arg_exe := ''/opt/7za''\<rparr>)) = - 2"
  proof (rule rejected)
    have "\<not> isfile fs_batch (abspath fs_batch (arg_exe (ns_batch\<lparr>arg_exe := ''/opt/7za''\<rparr>)))"
      by code_simp
    then show "\<not> isfile fs_batch (abspath fs_batch (arg_exe (ns_batch\<lparr>arg_exe := ''/opt/7za''\<rparr>)))
        \<or> fst (splitext (basename (arg_exe (ns_batch\<lparr>arg_exe := ''/opt/7za''\<rparr>))))
            \<notin> set main_executables
        \<or> \<not> list_all (spec_valid_input fs_batch) (arg_input (ns_batch\<lparr>arg_exe := ''/opt/7za''\<rparr>))
        \<or> concat (map (spec_expand_one fs_batch) (arg_input (ns_batch\<lparr>arg_exe := ''/opt/7za''\<rparr>))) = []"
      by (rule disjI1)
  qed
  have x2: "exit_status (main tool_ok_then_fatal fs_batch (ns_batch\<lparr>arg_exe := ''/D/a.zip''\<rparr>)) = - 2"
  proof (rule rejected)
    have "fst (splitext (basename (arg_exe (ns_batch\<lparr>arg_exe := ''/D/a.zip''\<rparr>))))
            \<notin> set main_executables"
      by code_simp
    then show "\<not> isfile fs_batch (abspath fs_batch (arg_exe (ns_batch\<lparr>arg_exe := ''/D/a.zip''\<rparr>)))
        \<or> fst (splitext (basename (arg_exe (ns_batch\<lparr>arg_exe := ''/D/a.zip''\<rparr>))))
            \<notin> set main_executables
        \<or> \<not> list_all (spec_valid_input fs_batch) (arg_input (ns_batch\<lparr>arg_exe := ''/D/a.zip''\<rparr>))
        \<or> concat (map (spec_expand_one fs_batch) (arg_input (ns_batch\<lparr>arg_exe := ''/D/a.zip''\<rparr>))) = []"
      by (intro disjI2 disjI1)
  qed
  have x3: "exit_status (main tool_ok_then_fatal fs_batch
              (ns_batch\<lparr>arg_input := [''a.zip'', ''missing.zip'']\<rparr>)) = - 2"
  proof (rule rejected)
    have "\<not> list_all (spec_valid_input fs_batch)
               (arg_input (ns_batch\<lparr>arg_input := [''a.zip'', ''missing.zip'']\<rparr>))"
      by code_simp
    then show "\<not> isfile fs_batch
             (abspath fs_batch (arg_exe (ns_batch\<lparr>arg_input := [''a.zip'', ''missing.zip'']\<rparr>)))
        \<or> fst (splitext (basename (arg_exe (ns_batch\<lparr>arg_input := [''a.zip'', ''missing.zip'']\<rparr>))))
            \<notin> set main_executables
        \<or> \<not> list_all (spec_valid_input fs_batch)
              (arg_input (ns_batch\<lparr>arg_input := [''a.zip'', ''missing.zip'']\<rparr>))
        \<or> concat (map (spec_expand_one fs_batch)
              (arg_input (ns_batch\<lparr>arg_input := [''a.zip'', ''missing.zip'']\<rparr>))) = []"
      by (intro disjI2 disjI1)
  qed
  have x4: "exit_status (main tool_ok_then_fatal fs_batch (ns_batch\<lparr>arg_input := [''/empty'']\<rparr>)) = - 2"
  proof (rule rejected)
    have "concat (map (spec_expand_one fs_batch)
               (arg_input (ns_batch\<lparr>arg_input := [''/empty'']\<rparr>))) = []"
      by code_simp
    then show "\<not> isfile fs_batch (abspath fs_batch (arg_exe (ns_batch\<lparr>arg_input := [''/empty'']\<rparr>)))
        \<or> fst (splitext (basename (arg_exe (ns_batch\<lparr>arg_input := [''/empty'']\<rparr>))))
            \<notin> set main_executables
        \<or> \<not> list_all (spec_valid_input fs_batch) (arg_input (ns_batch\<lparr>arg_input := [''/empty'']\<rparr>))
        \<or> concat (map (spec_expand_one fs_batch) (arg_input (ns_batch\<lparr>arg_input := [''/empty'']\<rparr>))) = []"
      by (intro disjI2)
  qed
  show ?thesis
    by (intro conjI failed ok x1 x2 x3 x4)
qed

end
